theory Spec2Isabelle
  imports Main "HOL-Library.Word"
begin

section \<open>SSH signature-algorithm shim (api/utils/signer.go)\<close>

text \<open>
  Go's \<open>[]byte\<close>: Isabelle characters are 8-bit values, so a byte slice is a
  \<open>char list\<close>.
\<close>

type_synonym bytes = "char list"

text \<open>
  \<open>ssh.Signer\<close> is an interface with \<open>PublicKey()\<close> and \<open>Sign(rand, data)\<close>;
  \<open>ssh.AlgorithmSigner\<close> extends it with \<open>SignWithAlgorithm(rand, data, alg)\<close>.
  A value of interface type \<open>ssh.Signer\<close> either has a dynamic type that also implements
  \<open>ssh.AlgorithmSigner\<close> or it has not; the type assertion \<open>s.(ssh.AlgorithmSigner)\<close>
  tells the two apart. The type \<open>'r\<close> stands for the \<open>io.Reader\<close> and \<open>'res\<close> for
  the pair \<open>(*ssh.Signature, error)\<close> a signing call returns.

  \<open>fixedAlgorithmSigner\<close> is the struct of the source: it embeds an
  \<open>ssh.AlgorithmSigner\<close> and carries the algorithm name \<open>alg\<close>.
\<close>

datatype ('r, 'res) algorithm_signer =
    KeySigner string "'r \<Rightarrow> bytes \<Rightarrow> 'res" "'r \<Rightarrow> bytes \<Rightarrow> string \<Rightarrow> 'res"
  | fixedAlgorithmSigner "('r, 'res) algorithm_signer" string

datatype ('r, 'res) signer =
    PlainSigner string "'r \<Rightarrow> bytes \<Rightarrow> 'res"
  | AlgorithmSigner "('r, 'res) algorithm_signer"

text \<open>The two key-type names of \<open>golang.org/x/crypto/ssh\<close> the source compares with.\<close>

definition KeyAlgoRSA :: string where
  "KeyAlgoRSA = ''ssh-rsa''"

definition CertAlgoRSAv01 :: string where
  "CertAlgoRSAv01 = ''ssh-rsa-cert-v01@openssh.com''"

text \<open>
  \<open>s.PublicKey().Type()\<close>. The embedded interface of \<open>fixedAlgorithmSigner\<close> promotes
  \<open>PublicKey\<close>, so the wrapper answers with the key type of what it wraps.
\<close>

fun as_PublicKey_Type :: "('r, 'res) algorithm_signer \<Rightarrow> string" where
  "as_PublicKey_Type (KeySigner t sg sa) = t"
| "as_PublicKey_Type (fixedAlgorithmSigner s a) = as_PublicKey_Type s"

fun PublicKey_Type :: "('r, 'res) signer \<Rightarrow> string" where
  "PublicKey_Type (PlainSigner t sg) = t"
| "PublicKey_Type (AlgorithmSigner s) = as_PublicKey_Type s"

text \<open>
  \<open>func (s fixedAlgorithmSigner) SignWithAlgorithm(rand, data, alg)\<close>: an empty \<open>alg\<close>
  is replaced by the fixed one, then the call goes to the embedded signer.
\<close>

fun SignWithAlgorithm ::
  "('r, 'res) algorithm_signer \<Rightarrow> 'r \<Rightarrow> bytes \<Rightarrow> string \<Rightarrow> 'res" where
  "SignWithAlgorithm (KeySigner t sg sa) rand data alg = sa rand data alg"
| "SignWithAlgorithm (fixedAlgorithmSigner s a) rand data alg =
     SignWithAlgorithm s rand data (if alg = [] then a else alg)"

text \<open>
  \<open>func (s fixedAlgorithmSigner) Sign(rand, data)\<close> calls the embedded signer's
  \<open>SignWithAlgorithm\<close> with the fixed algorithm.
\<close>

fun as_Sign :: "('r, 'res) algorithm_signer \<Rightarrow> 'r \<Rightarrow> bytes \<Rightarrow> 'res" where
  "as_Sign (KeySigner t sg sa) rand data = sg rand data"
| "as_Sign (fixedAlgorithmSigner s a) rand data = SignWithAlgorithm s rand data a"

fun Sign :: "('r, 'res) signer \<Rightarrow> 'r \<Rightarrow> bytes \<Rightarrow> 'res" where
  "Sign (PlainSigner t sg) rand data = sg rand data"
| "Sign (AlgorithmSigner s) rand data = as_Sign s rand data"

text \<open>
  The type assertion \<open>as, ok := s.(ssh.AlgorithmSigner)\<close>: \<open>None\<close> is \<open>ok = false\<close>.
\<close>

fun assert_AlgorithmSigner :: "('r, 'res) signer \<Rightarrow> ('r, 'res) algorithm_signer option" where
  "assert_AlgorithmSigner (PlainSigner t sg) = None"
| "assert_AlgorithmSigner (AlgorithmSigner s) = Some s"

text \<open>
  \<open>func AlgSigner(s ssh.Signer, alg string) ssh.Signer\<close>, with its three early
  returns in the order of the source.
\<close>

definition AlgSigner :: "('r, 'res) signer \<Rightarrow> string \<Rightarrow> ('r, 'res) signer" where
  "AlgSigner s alg =
     (if alg = [] then s
      else if PublicKey_Type s \<noteq> KeyAlgoRSA \<and> PublicKey_Type s \<noteq> CertAlgoRSAv01 then s
      else (case assert_AlgorithmSigner s of
              None \<Rightarrow> s
            | Some as \<Rightarrow> AlgorithmSigner (fixedAlgorithmSigner as alg)))"

section \<open>Errors (github.com/gravitational/trace)\<close>

text \<open>
  The error kinds of the \<open>trace\<close> package that the store creates or tests for, each with
  its message, and one constructor for every other error (transport, serialization).
\<close>

datatype error =
    NotFound string
  | AlreadyExists string
  | CompareFailed string
  | BadParameter string
  | OtherError string

text \<open>
  \<open>trace.Wrap\<close> adds a stack trace and keeps the kind and the message of the error,
  so that \<open>trace.IsNotFound (trace.Wrap err)\<close> is \<open>trace.IsNotFound err\<close>.
\<close>

definition Wrap :: "error \<Rightarrow> error" where
  "Wrap err = err"

fun IsNotFound :: "error \<Rightarrow> bool" where
  "IsNotFound (NotFound msg) = True"
| "IsNotFound err = False"


fun IsCompareFailed :: "error \<Rightarrow> bool" where
  "IsCompareFailed (CompareFailed msg) = True"
| "IsCompareFailed err = False"

section \<open>The backend collaborator\<close>

text \<open>
  \<open>int64\<close> (resource and revision identifiers) and \<open>time.Time\<close> (0 is the zero time,
  which means no expiry).
\<close>

type_synonym int64 = "64 word"
type_synonym time = nat

text \<open>\<open>backend.Item\<close>, with the four fields the store sets or reads.\<close>

record item =
  Key :: bytes
  Value :: bytes
  Expires :: time
  ID :: int64

text \<open>The calls a backend has received, in order: what the store asked of it.\<close>

datatype backend_call =
    GetCall bytes
  | CreateCall item
  | PutCall item
  | CompareAndSwapCall item item
  | DeleteCall bytes

text \<open>
  Modelled from the spec: the key-value backend (package \<open>lib/backend\<close>) is not among
  the sources. Section 3 of the specification says that each entity is stored as an opaque
  byte payload under its key, annotated with a backend-assigned revision identifier and an
  expiry. Section 6 gives the five primitives of the backend.
\<close>

record entry =
  payload :: bytes
  expires_at :: time
  mod_revision :: int64

text \<open>
  Modelled from the spec: the state of the backend is the map from keys to stored
  entries, the last revision the backend assigned, and the log of the calls received.
\<close>

record backend =
  items :: "bytes \<rightharpoonup> entry"
  revision :: int64
  calls :: "backend_call list"

text \<open>Modelled from the spec: every primitive first records the call it received.\<close>

definition log_call :: "backend_call \<Rightarrow> backend \<Rightarrow> backend" where
  "log_call c b = b\<lparr>calls := calls b @ [c]\<rparr>"

text \<open>
  Modelled from the spec: the item a read of key \<open>k\<close> returns for a stored entry, its
  value, revision and expiry.
\<close>

definition item_of :: "bytes \<Rightarrow> entry \<Rightarrow> item" where
  "item_of k e = \<lparr>Key = k, Value = payload e, Expires = expires_at e, ID = mod_revision e\<rparr>"

text \<open>
  Modelled from the spec: a write stores the value and the expiry of the item it is
  given under a fresh revision, and answers with that revision.
\<close>

definition store_item :: "bytes \<Rightarrow> item \<Rightarrow> backend \<Rightarrow> int64 \<times> backend" where
  "store_item k i b =
     (let r = revision b + 1
      in (r, b\<lparr>items := (items b)(k \<mapsto> \<lparr>payload = Value i, expires_at = Expires i, mod_revision = r\<rparr>),
               revision := r\<rparr>))"

text \<open>Modelled from the spec: \<open>Get(key) -> (value, revision, expiry) | NotFound\<close>.\<close>

definition backend_Get :: "backend \<Rightarrow> bytes \<Rightarrow> (error + item) \<times> backend" where
  "backend_Get b k =
     (case items b k of
        None \<Rightarrow> (Inl (NotFound ''key is not found''), log_call (GetCall k) b)
      | Some e \<Rightarrow> (Inr (item_of k e), log_call (GetCall k) b))"


text \<open>
  Modelled from the spec: \<open>Put(key, value, expiry, optionalPriorRevision) -> revision\<close>,
  create or overwrite. The prior revision in the item is not used for conflict detection.
\<close>

definition backend_Put :: "backend \<Rightarrow> item \<Rightarrow> (error + int64) \<times> backend" where
  "backend_Put b i =
     (case store_item (Key i) i (log_call (PutCall i) b) of
        (r, b') \<Rightarrow> (Inr r, b'))"

text \<open>
  Modelled from the spec:
  \<open>CompareAndSwap(key, expectedRevision, newValue, newExpiry) -> newRevision | ConcurrentModification\<close>.
  The write is applied only if the entry at the key still has the expected revision.
\<close>

definition backend_CompareAndSwap ::
  "backend \<Rightarrow> item \<Rightarrow> item \<Rightarrow> (error + int64) \<times> backend" where
  "backend_CompareAndSwap b expected replaceWith =
     (case items b (Key expected) of
        None \<Rightarrow> (Inl (CompareFailed ''key is not found''),
                 log_call (CompareAndSwapCall expected replaceWith) b)
      | Some cur \<Rightarrow>
          if mod_revision cur = ID expected
          then (case store_item (Key expected) replaceWith
                       (log_call (CompareAndSwapCall expected replaceWith) b) of
                  (r, b') \<Rightarrow> (Inr r, b'))
          else (Inl (CompareFailed ''current revision does not match the expected one''),
                log_call (CompareAndSwapCall expected replaceWith) b))"


text \<open>
  Modelled from the spec: \<open>backend.Key\<close> is not among the sources; section 6 gives the
  key paths as the parts joined by a slash (\<open>cluster_configuration/name\<close>).
\<close>

fun backend_Key :: "string list \<Rightarrow> bytes" where
  "backend_Key [] = []"
| "backend_Key [p] = p"
| "backend_Key (p # ps) = p @ ''/'' @ backend_Key ps"

declare backend_Key.simps [simp del]

section \<open>Resources and their codecs\<close>

text \<open>
  Modelled from the spec: the resource types \<open>services.ClusterName\<close>,
  \<open>services.StaticTokens\<close>, \<open>services.AuthPreference\<close> and \<open>services.ClusterConfig\<close>
  (package \<open>lib/services\<close>) are not among the sources. The store reads two things of
  every resource, \<open>GetResourceID()\<close> and \<open>Expiry()\<close>; the rest of the resource is
  its specification, of a type that depends on the kind.
\<close>

record 'a resource =
  resource_id :: int64
  expiry :: time
  spec :: 'a

text \<open>
  Modelled from the spec: the cluster configuration has a session-recording mode, which
  \<open>GetSessionRecording\<close> reads and \<open>SetSessionRecording\<close> writes, and other settings,
  of any type \<open>'o\<close>.
\<close>

record 'o cluster_config_spec =
  session_recording :: string
  other :: 'o

definition GetSessionRecording :: "'o cluster_config_spec resource \<Rightarrow> string" where
  "GetSessionRecording c = session_recording (spec c)"

definition SetSessionRecording ::
  "string \<Rightarrow> 'o cluster_config_spec resource \<Rightarrow> 'o cluster_config_spec resource" where
  "SetSessionRecording mode c = c\<lparr>spec := (spec c)\<lparr>session_recording := mode\<rparr>\<rparr>"

text \<open>
  Modelled from the spec: \<open>services.MarshalOption\<close> and \<open>services.AddOptions\<close> are not
  among the sources. Section 9 names the two options the store builds, the resource
  identifier and the expiry; \<open>AddOptions\<close> appends the options it is given to the
  caller's.
\<close>

datatype marshal_option =
    WithResourceID int64
  | WithExpires time

definition AddOptions :: "marshal_option list \<Rightarrow> marshal_option list \<Rightarrow> marshal_option list" where
  "AddOptions opts add = opts @ add"

text \<open>
  Modelled from the spec: the codec of a resource kind (the marshalers of package
  \<open>lib/services\<close>) is not among the sources; section 6 gives it as
  \<open>Marshal(value) -> bytes\<close> and \<open>Unmarshal(bytes, revision, expiry) -> value\<close>, both
  of which may fail. The store is given the codec and treats it as opaque.
\<close>

record 'a marshaler =
  Marshal :: "'a resource \<Rightarrow> error + bytes"
  Unmarshal :: "bytes \<Rightarrow> marshal_option list \<Rightarrow> error + 'a resource"

text \<open>
  Modelled from the spec: what attaching the backend revision and expiry to a decoded
  value means. An option list is read from left to right, a later option overriding
  an earlier one of the same name.
\<close>

fun apply_option :: "marshal_option \<Rightarrow> 'a resource \<Rightarrow> 'a resource" where
  "apply_option (WithResourceID i) v = v\<lparr>resource_id := i\<rparr>"
| "apply_option (WithExpires t) v = v\<lparr>expiry := t\<rparr>"

fun apply_options :: "marshal_option list \<Rightarrow> 'a resource \<Rightarrow> 'a resource" where
  "apply_options [] v = v"
| "apply_options (opt # opts) v = apply_options opts (apply_option opt v)"

text \<open>
  Modelled from the spec: the round-trip law of a codec. Whatever \<open>Marshal\<close> produces,
  \<open>Unmarshal\<close> decodes to the value that was marshaled, with the options attached.
\<close>

definition codec_roundtrip :: "'a marshaler \<Rightarrow> bool" where
  "codec_roundtrip m =
     (\<forall>v bs opts. Marshal m v = Inr bs \<longrightarrow> Unmarshal m bs opts = Inr (apply_options opts v))"

section \<open>The cluster configuration service (lib/services/local/configuration.go)\<close>

definition clusterConfigPrefix :: string where
  "clusterConfigPrefix = ''cluster_configuration''"

definition namePrefix :: string where
  "namePrefix = ''name''"

definition staticTokensPrefix :: string where
  "staticTokensPrefix = ''static_tokens''"

definition authPrefix :: string where
  "authPrefix = ''authentication''"

definition preferencePrefix :: string where
  "preferencePrefix = ''preference''"

definition generalPrefix :: string where
  "generalPrefix = ''general''"

text \<open>
  Every operation takes the backend state and returns the new one with its result;
  \<open>Inl\<close> is the error return.
\<close>

definition GetClusterName ::
  "'a marshaler \<Rightarrow> marshal_option list \<Rightarrow> backend \<Rightarrow> (error + 'a resource) \<times> backend" where
  "GetClusterName m opts b =
     (case backend_Get b (backend_Key [clusterConfigPrefix, namePrefix]) of
        (Inl err, b') \<Rightarrow>
          if IsNotFound err then (Inl (NotFound ''cluster name not found''), b')
          else (Inl (Wrap err), b')
      | (Inr i, b') \<Rightarrow>
          (Unmarshal m (Value i) (AddOptions opts [WithResourceID (ID i)]), b'))"



definition UpsertClusterName ::
  "'a marshaler \<Rightarrow> 'a resource \<Rightarrow> backend \<Rightarrow> (error + unit) \<times> backend" where
  "UpsertClusterName m c b =
     (case Marshal m c of
        Inl err \<Rightarrow> (Inl (Wrap err), b)
      | Inr value \<Rightarrow>
          (case backend_Put b
                  \<lparr>Key = backend_Key [clusterConfigPrefix, namePrefix],
                   Value = value, Expires = expiry c, ID = resource_id c\<rparr> of
             (Inl err, b') \<Rightarrow> (Inl (Wrap err), b')
           | (Inr lease, b') \<Rightarrow> (Inr (), b')))"

definition GetStaticTokens ::
  "'a marshaler \<Rightarrow> backend \<Rightarrow> (error + 'a resource) \<times> backend" where
  "GetStaticTokens m b =
     (case backend_Get b (backend_Key [clusterConfigPrefix, staticTokensPrefix]) of
        (Inl err, b') \<Rightarrow>
          if IsNotFound err then (Inl (NotFound ''static tokens not found''), b')
          else (Inl (Wrap err), b')
      | (Inr i, b') \<Rightarrow>
          (Unmarshal m (Value i) [WithResourceID (ID i), WithExpires (Expires i)], b'))"

definition SetStaticTokens ::
  "'a marshaler \<Rightarrow> 'a resource \<Rightarrow> backend \<Rightarrow> (error + unit) \<times> backend" where
  "SetStaticTokens m c b =
     (case Marshal m c of
        Inl err \<Rightarrow> (Inl (Wrap err), b)
      | Inr value \<Rightarrow>
          (case backend_Put b
                  \<lparr>Key = backend_Key [clusterConfigPrefix, staticTokensPrefix],
                   Value = value, Expires = expiry c, ID = resource_id c\<rparr> of
             (Inl err, b') \<Rightarrow> (Inl (Wrap err), b')
           | (Inr lease, b') \<Rightarrow> (Inr (), b')))"


definition GetAuthPreference ::
  "'a marshaler \<Rightarrow> backend \<Rightarrow> (error + 'a resource) \<times> backend" where
  "GetAuthPreference m b =
     (case backend_Get b (backend_Key [authPrefix, preferencePrefix, generalPrefix]) of
        (Inl err, b') \<Rightarrow>
          if IsNotFound err then (Inl (NotFound ''authentication preference not found''), b')
          else (Inl (Wrap err), b')
      | (Inr i, b') \<Rightarrow>
          (Unmarshal m (Value i) [WithResourceID (ID i), WithExpires (Expires i)], b'))"

text \<open>
  The item of \<open>SetAuthPreference\<close> (and of \<open>SetClusterConfig\<close> below) has no
  \<open>Expires\<close>: the field keeps Go's zero value, the zero time.
\<close>

definition SetAuthPreference ::
  "'a marshaler \<Rightarrow> 'a resource \<Rightarrow> backend \<Rightarrow> (error + unit) \<times> backend" where
  "SetAuthPreference m preferences b =
     (case Marshal m preferences of
        Inl err \<Rightarrow> (Inl (Wrap err), b)
      | Inr value \<Rightarrow>
          (case backend_Put b
                  \<lparr>Key = backend_Key [authPrefix, preferencePrefix, generalPrefix],
                   Value = value, Expires = 0, ID = resource_id preferences\<rparr> of
             (Inl err, b') \<Rightarrow> (Inl (Wrap err), b')
           | (Inr lease, b') \<Rightarrow> (Inr (), b')))"

text \<open>
  \<open>getClusterConfig\<close> returns the raw item and the decoded configuration. Its variadic
  \<open>opts\<close> come before the two options built from the item.
\<close>

definition getClusterConfig ::
  "'o cluster_config_spec marshaler \<Rightarrow> marshal_option list \<Rightarrow> backend \<Rightarrow>
   (error + item \<times> 'o cluster_config_spec resource) \<times> backend" where
  "getClusterConfig m opts b =
     (case backend_Get b (backend_Key [clusterConfigPrefix, generalPrefix]) of
        (Inl err, b') \<Rightarrow>
          if IsNotFound err then (Inl (NotFound ''cluster configuration not found''), b')
          else (Inl (Wrap err), b')
      | (Inr i, b') \<Rightarrow>
          (case Unmarshal m (Value i)
                  (AddOptions opts [WithResourceID (ID i), WithExpires (Expires i)]) of
             Inl err \<Rightarrow> (Inl (Wrap err), b')
           | Inr cc \<Rightarrow> (Inr (i, cc), b')))"

text \<open>\<open>GetClusterConfig\<close> calls \<open>getClusterConfig\<close> with the context alone.\<close>

definition GetClusterConfig ::
  "'o cluster_config_spec marshaler \<Rightarrow> marshal_option list \<Rightarrow> backend \<Rightarrow>
   (error + 'o cluster_config_spec resource) \<times> backend" where
  "GetClusterConfig m opts b =
     (case getClusterConfig m [] b of
        (Inl err, b') \<Rightarrow> (Inl (Wrap err), b')
      | (Inr (i, rc), b') \<Rightarrow> (Inr rc, b'))"

text \<open>
  \<open>UpdateClusterConfig\<close> makes two round trips to the backend, the read and the
  compare-and-swap. Other clients of the backend may act between the two: \<open>env\<close> is
  what they do to the backend state in that interval. \<open>check\<close> is the
  \<open>CheckAndSetDefaults\<close> method of the configuration, which is not among the sources:
  it answers with an error or with the configuration after its defaults are set.
\<close>

definition UpdateClusterConfig_interleaved ::
  "(backend \<Rightarrow> backend) \<Rightarrow>
   ('o cluster_config_spec resource \<Rightarrow> error + 'o cluster_config_spec resource) \<Rightarrow>
   'o cluster_config_spec marshaler \<Rightarrow> 'o cluster_config_spec resource \<Rightarrow> backend \<Rightarrow>
   (error + unit) \<times> backend" where
  "UpdateClusterConfig_interleaved env check m cc b =
     (case check cc of
        Inl err \<Rightarrow> (Inl (Wrap err), b)
      | Inr cc' \<Rightarrow>
          (case getClusterConfig m [] b of
             (Inl err, b1) \<Rightarrow> (Inl (Wrap err), b1)
           | (Inr (existingItem, current), b1) \<Rightarrow>
               (let update = SetSessionRecording (GetSessionRecording cc') current
                in case Marshal m update of
                     Inl err \<Rightarrow> (Inl (Wrap err), b1)
                   | Inr updateValue \<Rightarrow>
                       (case backend_CompareAndSwap (env b1) existingItem
                               \<lparr>Key = backend_Key [clusterConfigPrefix, generalPrefix],
                                Value = updateValue, Expires = expiry update, ID = 0\<rparr> of
                          (Inl err, b2) \<Rightarrow>
                            if IsCompareFailed err
                            then (Inl (CompareFailed
                                   ''cluster configuration has been updated by another client, try again''),
                                  b2)
                            else (Inl (Wrap err), b2)
                        | (Inr lease, b2) \<Rightarrow> (Inr (), b2)))))"

text \<open>The update with no other client acting between its read and its write.\<close>

definition UpdateClusterConfig ::
  "('o cluster_config_spec resource \<Rightarrow> error + 'o cluster_config_spec resource) \<Rightarrow>
   'o cluster_config_spec marshaler \<Rightarrow> 'o cluster_config_spec resource \<Rightarrow> backend \<Rightarrow>
   (error + unit) \<times> backend" where
  "UpdateClusterConfig check m cc b = UpdateClusterConfig_interleaved (\<lambda>b1. b1) check m cc b"


definition SetClusterConfig ::
  "'o cluster_config_spec marshaler \<Rightarrow> 'o cluster_config_spec resource \<Rightarrow> backend \<Rightarrow>
   (error + unit) \<times> backend" where
  "SetClusterConfig m c b =
     (case Marshal m c of
        Inl err \<Rightarrow> (Inl (Wrap err), b)
      | Inr value \<Rightarrow>
          (case backend_Put b
                  \<lparr>Key = backend_Key [clusterConfigPrefix, generalPrefix],
                   Value = value, Expires = 0, ID = resource_id c\<rparr> of
             (Inl err, b') \<Rightarrow> (Inl (Wrap err), b')
           | (Inr lease, b') \<Rightarrow> (Inr (), b')))"

section \<open>Observing the service\<close>





section \<open>Concrete inputs\<close>

text \<open>
  Two signers to run the shim on: an RSA key whose signer implements
  \<open>ssh.AlgorithmSigner\<close>, and an Ed25519 key whose signer does not. The signature they
  return names the algorithm that was used.
\<close>

definition demo_rsa_signer :: "(unit, string) algorithm_signer" where
  "demo_rsa_signer =
     KeySigner ''ssh-rsa'' (\<lambda>rand data. ''ssh-rsa:'' @ data) (\<lambda>rand data alg. alg @ '':'' @ data)"

definition demo_ed25519_signer :: "(unit, string) signer" where
  "demo_ed25519_signer = PlainSigner ''ssh-ed25519'' (\<lambda>rand data. ''ssh-ed25519:'' @ data)"

text \<open>
  A codec to run the service on. A resource is written as its resource identifier and its
  expiry, each in unary and closed by a zero, followed by the bytes of its specification;
  \<open>Unmarshal\<close> reads the three back and attaches the options.
\<close>

definition enc_nat :: "nat \<Rightarrow> bytes" where
  "enc_nat n = replicate n CHR ''1'' @ ''0''"

definition dec_nat :: "bytes \<Rightarrow> nat \<times> bytes" where
  "dec_nat bs =
     (length (takeWhile (\<lambda>c. c = CHR ''1'') bs), tl (dropWhile (\<lambda>c. c = CHR ''1'') bs))"

definition demo_marshaler :: "('a \<Rightarrow> bytes) \<Rightarrow> (bytes \<Rightarrow> 'a) \<Rightarrow> 'a marshaler" where
  "demo_marshaler enc dec =
     \<lparr>Marshal = (\<lambda>v. Inr (enc_nat (unat (resource_id v)) @ enc_nat (expiry v) @ enc (spec v))),
      Unmarshal = (\<lambda>bs opts.
         case dec_nat bs of
           (i, r1) \<Rightarrow>
             (case dec_nat r1 of
                (e, r2) \<Rightarrow>
                  Inr (apply_options opts \<lparr>resource_id = of_nat i, expiry = e, spec = dec r2\<rparr>)))\<rparr>"

definition enc_config_spec :: "bytes cluster_config_spec \<Rightarrow> bytes" where
  "enc_config_spec s = enc_nat (length (session_recording s)) @ session_recording s @ other s"

definition dec_config_spec :: "bytes \<Rightarrow> bytes cluster_config_spec" where
  "dec_config_spec bs =
     (case dec_nat bs of (n, r) \<Rightarrow> \<lparr>session_recording = take n r, other = drop n r\<rparr>)"

definition demo_bytes_marshaler :: "bytes marshaler" where
  "demo_bytes_marshaler = demo_marshaler (\<lambda>s. s) (\<lambda>s. s)"

definition demo_config_marshaler :: "bytes cluster_config_spec marshaler" where
  "demo_config_marshaler = demo_marshaler enc_config_spec dec_config_spec"

text \<open>
  A validation to run the update on: an empty session-recording mode becomes \<open>node\<close>,
  and a mode that is not one of the known ones is rejected.
\<close>

definition demo_check ::
  "bytes cluster_config_spec resource \<Rightarrow> error + bytes cluster_config_spec resource" where
  "demo_check cc =
     (let cc' = (if session_recording (spec cc) = [] then SetSessionRecording ''node'' cc else cc)
      in if session_recording (spec cc') \<in> set [''node'', ''proxy'', ''off'']
         then Inr cc'
         else Inl (BadParameter ''session_recording must either be: node,proxy,off''))"

text \<open>The backend before anything is stored, and some resources.\<close>

definition empty_backend :: backend where
  "empty_backend = \<lparr>items = Map.empty, revision = 0, calls = []\<rparr>"



definition demo_tokens :: "bytes resource" where
  "demo_tokens = \<lparr>resource_id = 7, expiry = 5, spec = ''token''\<rparr>"

definition demo_preference :: "bytes resource" where
  "demo_preference = \<lparr>resource_id = 7, expiry = 5, spec = ''otp''\<rparr>"

definition node_config :: "bytes cluster_config_spec resource" where
  "node_config = \<lparr>resource_id = 7, expiry = 5,
                  spec = \<lparr>session_recording = ''node'', other = ''audit''\<rparr>\<rparr>"

definition proxy_config :: "bytes cluster_config_spec resource" where
  "proxy_config = \<lparr>resource_id = 0, expiry = 0,
                   spec = \<lparr>session_recording = ''proxy'', other = ''unrelated''\<rparr>\<rparr>"

definition bad_config :: "bytes cluster_config_spec resource" where
  "bad_config = \<lparr>resource_id = 0, expiry = 0,
                 spec = \<lparr>session_recording = ''sometimes'', other = ''audit''\<rparr>\<rparr>"



text \<open>
  A backend that holds \<open>node_config\<close>, and another client of the backend, which
  overwrites the cluster configuration with its own.
\<close>

definition stored_node_config :: backend where
  "stored_node_config = snd (SetClusterConfig demo_config_marshaler node_config empty_backend)"

definition their_config :: "bytes cluster_config_spec resource" where
  "their_config = \<lparr>resource_id = 0, expiry = 0,
                   spec = \<lparr>session_recording = ''off'', other = ''theirs''\<rparr>\<rparr>"

definition another_client :: "backend \<Rightarrow> backend" where
  "another_client b = snd (SetClusterConfig demo_config_marshaler their_config b)"

section \<open>Facts about the backend, the operations and the codec\<close>

lemma log_call_simps [simp]:
  "items (log_call c b) = items b"
  "revision (log_call c b) = revision b"
  "calls (log_call c b) = calls b @ [c]"
  by (simp_all add: log_call_def)

lemma item_of_simps [simp]:
  "Key (item_of k e) = k"
  "Value (item_of k e) = payload e"
  "Expires (item_of k e) = expires_at e"
  "ID (item_of k e) = mod_revision e"
  by (simp_all add: item_of_def)

lemma key_paths:
  "backend_Key [clusterConfigPrefix, namePrefix] = ''cluster_configuration/name''"
  "backend_Key [clusterConfigPrefix, staticTokensPrefix] = ''cluster_configuration/static_tokens''"
  "backend_Key [authPrefix, preferencePrefix, generalPrefix] = ''authentication/preference/general''"
  "backend_Key [clusterConfigPrefix, generalPrefix] = ''cluster_configuration/general''"
  by (simp_all add: backend_Key.simps clusterConfigPrefix_def namePrefix_def staticTokensPrefix_def authPrefix_def
      preferencePrefix_def generalPrefix_def)




lemma getClusterConfig_present:
  assumes "items b (backend_Key [clusterConfigPrefix, generalPrefix]) = Some i"
  shows "getClusterConfig m opts b =
    (case Unmarshal m (payload i) (opts @ [WithResourceID (mod_revision i), WithExpires (expires_at i)]) of
       Inl err \<Rightarrow> (Inl (Wrap err), log_call (GetCall (backend_Key [clusterConfigPrefix, generalPrefix])) b)
     | Inr cc \<Rightarrow> (Inr (item_of (backend_Key [clusterConfigPrefix, generalPrefix]) i, cc),
                 log_call (GetCall (backend_Key [clusterConfigPrefix, generalPrefix])) b))"
  using assms by (simp add: getClusterConfig_def backend_Get_def AddOptions_def split: sum.splits)

lemma getClusterConfig_absent:
  assumes "items b (backend_Key [clusterConfigPrefix, generalPrefix]) = None"
  shows "getClusterConfig m opts b =
    (Inl (NotFound ''cluster configuration not found''),
     log_call (GetCall (backend_Key [clusterConfigPrefix, generalPrefix])) b)"
  using assms by (simp add: getClusterConfig_def backend_Get_def)

lemma getClusterConfig_items [simp]: "items (snd (getClusterConfig m opts b)) = items b"
  by (cases "items b (backend_Key [clusterConfigPrefix, generalPrefix])")
    (simp_all add: getClusterConfig_present getClusterConfig_absent split: sum.splits)

lemma UpdateClusterConfig_interleaved_reaches_swap:
  assumes "check cc = Inr cc'"
    and "items b (backend_Key [clusterConfigPrefix, generalPrefix]) = Some existing"
    and "Unmarshal m (payload existing) [WithResourceID (mod_revision existing), WithExpires (expires_at existing)]
           = Inr current"
    and "Marshal m (SetSessionRecording (GetSessionRecording cc') current) = Inr updateValue"
  shows "UpdateClusterConfig_interleaved env check m cc b =
    (case backend_CompareAndSwap
            (env (log_call (GetCall (backend_Key [clusterConfigPrefix, generalPrefix])) b))
            (item_of (backend_Key [clusterConfigPrefix, generalPrefix]) existing)
            \<lparr>Key = backend_Key [clusterConfigPrefix, generalPrefix], Value = updateValue,
             Expires = expiry current, ID = 0\<rparr> of
       (Inl err, b2) \<Rightarrow>
         if IsCompareFailed err
         then (Inl (CompareFailed
                ''cluster configuration has been updated by another client, try again''), b2)
         else (Inl (Wrap err), b2)
     | (Inr lease, b2) \<Rightarrow> (Inr (), b2))"
  using assms
  by (simp add: UpdateClusterConfig_interleaved_def getClusterConfig_present Let_def
      SetSessionRecording_def)

lemma GetClusterConfig_present:
  "items b (backend_Key [clusterConfigPrefix, generalPrefix]) = Some e \<Longrightarrow>
     fst (GetClusterConfig mc opts b)
       = Unmarshal mc (payload e) [WithResourceID (mod_revision e), WithExpires (expires_at e)]"
  by (simp add: GetClusterConfig_def getClusterConfig_present Wrap_def split: sum.splits)

lemma codec_roundtripD:
  "codec_roundtrip m \<Longrightarrow> Marshal m v = Inr bs \<Longrightarrow> Unmarshal m bs opts = Inr (apply_options opts v)"
  by (simp add: codec_roundtrip_def)








lemma dec_enc_nat: "dec_nat (enc_nat n @ rest) = (n, rest)"
  by (induction n) (simp_all add: dec_nat_def enc_nat_def)

lemma demo_marshaler_roundtrip:
  assumes "\<And>x. dec (enc x) = x"
  shows "codec_roundtrip (demo_marshaler enc dec)"
proof -
  have r: "\<And>v::'a resource. \<lparr>resource_id = resource_id v, expiry = expiry v, spec = spec v\<rparr> = v"
    by simp
  show ?thesis
    by (simp add: codec_roundtrip_def demo_marshaler_def dec_enc_nat assms r)
qed

lemma demo_config_marshaler_roundtrip: "codec_roundtrip demo_config_marshaler"
  unfolding demo_config_marshaler_def
  by (rule demo_marshaler_roundtrip) (simp add: enc_config_spec_def dec_config_spec_def dec_enc_nat)

section \<open>Properties of the cluster configuration service\<close>




text \<open>
  Claim C2. A successful \<open>UpdateClusterConfig\<close> has read the current entry, decoded it
  with the revision and the expiry of the entry attached, and written back the marshaled
  form of that freshly read record with one field replaced: the session-recording mode,
  which is the mode of the caller's value after validation. Nothing else of the caller's
  value is used. The entry is written under the next revision with the expiry of the
  record read. For a codec that round-trips, \<open>GetClusterConfig\<close> after the update
  returns the record that \<open>GetClusterConfig\<close> returned before it, with the new
  revision and the new session-recording mode and every other field as it was.
\<close>

theorem UpdateClusterConfig_merges_session_recording:
  assumes "UpdateClusterConfig check m cc b = (Inr (), b')"
  shows "\<exists>existing current cc' updateValue.
     items b (backend_Key [clusterConfigPrefix, generalPrefix]) = Some existing \<and>
     Unmarshal m (payload existing)
       [WithResourceID (mod_revision existing), WithExpires (expires_at existing)] = Inr current \<and>
     check cc = Inr cc' \<and>
     Marshal m (current\<lparr>spec := (spec current)\<lparr>session_recording := session_recording (spec cc')\<rparr>\<rparr>)
       = Inr updateValue \<and>
     items b' = (items b)(backend_Key [clusterConfigPrefix, generalPrefix] \<mapsto>
        \<lparr>payload = updateValue, expires_at = expiry current, mod_revision = revision b + 1\<rparr>) \<and>
     fst (GetClusterConfig m [] b) = Inr current \<and>
     (codec_roundtrip m \<longrightarrow>
        fst (GetClusterConfig m [] b')
          = Inr (current\<lparr>resource_id := revision b + 1,
                         spec := (spec current)\<lparr>session_recording := session_recording (spec cc')\<rparr>\<rparr>))"
proof -
  let ?k = "backend_Key [clusterConfigPrefix, generalPrefix]"
  obtain cc' where c: "check cc = Inr cc'"
    using assms
    by (cases "check cc") (simp_all add: UpdateClusterConfig_def UpdateClusterConfig_interleaved_def)
  obtain existing where e: "items b ?k = Some existing"
    using assms c
    by (cases "items b ?k")
      (simp_all add: UpdateClusterConfig_def UpdateClusterConfig_interleaved_def
        getClusterConfig_absent)
  obtain current where u: "Unmarshal m (payload existing)
       [WithResourceID (mod_revision existing), WithExpires (expires_at existing)] = Inr current"
    using assms c e
    by (cases "Unmarshal m (payload existing)
       [WithResourceID (mod_revision existing), WithExpires (expires_at existing)]")
      (simp_all add: UpdateClusterConfig_def UpdateClusterConfig_interleaved_def
        getClusterConfig_present)
  let ?update = "current\<lparr>spec := (spec current)\<lparr>session_recording := session_recording (spec cc')\<rparr>\<rparr>"
  have su: "SetSessionRecording (GetSessionRecording cc') current = ?update"
    by (simp add: SetSessionRecording_def GetSessionRecording_def)
  obtain updateValue where v: "Marshal m ?update = Inr updateValue"
    using assms c e u
    by (cases "Marshal m ?update")
      (simp_all add: UpdateClusterConfig_def UpdateClusterConfig_interleaved_def
        getClusterConfig_present su Let_def)
  from v su have v': "Marshal m (SetSessionRecording (GetSessionRecording cc') current) = Inr updateValue"
    by simp
  have b': "b' = snd (UpdateClusterConfig check m cc b)" using assms by simp
  have i: "items b' = (items b)(?k \<mapsto>
        \<lparr>payload = updateValue, expires_at = expiry current, mod_revision = revision b + 1\<rparr>)"
    using e
    by (simp add: b' UpdateClusterConfig_def
        UpdateClusterConfig_interleaved_reaches_swap [of check cc, OF c e u v']
        backend_CompareAndSwap_def store_item_def Let_def)
  have g: "fst (GetClusterConfig m [] b) = Inr current"
    using e u by (simp add: GetClusterConfig_present)
  have r: "fst (GetClusterConfig m [] b')
          = Inr (current\<lparr>resource_id := revision b + 1,
                         spec := (spec current)\<lparr>session_recording := session_recording (spec cc')\<rparr>\<rparr>)"
    if "codec_roundtrip m"
    using that v i by (simp add: GetClusterConfig_present codec_roundtripD)
  from c e u v i g r show ?thesis by blast
qed

theorem UpdateClusterConfig_merges_session_recording_witness:
  "UpdateClusterConfig demo_check demo_config_marshaler proxy_config stored_node_config
     = (Inr (), snd (UpdateClusterConfig demo_check demo_config_marshaler proxy_config
                       stored_node_config)) \<and>
   fst (GetClusterConfig demo_config_marshaler [] stored_node_config)
     = Inr \<lparr>resource_id = 1, expiry = 0,
            spec = \<lparr>session_recording = ''node'', other = ''audit''\<rparr>\<rparr> \<and>
   fst (GetClusterConfig demo_config_marshaler []
         (snd (UpdateClusterConfig demo_check demo_config_marshaler proxy_config stored_node_config)))
     = Inr \<lparr>resource_id = 2, expiry = 0,
            spec = \<lparr>session_recording = ''proxy'', other = ''audit''\<rparr>\<rparr>"
proof -
  let ?b' = "snd (UpdateClusterConfig demo_check demo_config_marshaler proxy_config stored_node_config)"
  have ok: "fst (UpdateClusterConfig demo_check demo_config_marshaler proxy_config stored_node_config)
              = Inr ()"
    by code_simp
  then have h: "UpdateClusterConfig demo_check demo_config_marshaler proxy_config stored_node_config
                  = (Inr (), ?b')"
    by (simp add: prod_eq_iff)
  have c: "demo_check proxy_config = Inr proxy_config" by code_simp
  have g: "fst (GetClusterConfig demo_config_marshaler [] stored_node_config)
     = Inr \<lparr>resource_id = 1, expiry = 0,
            spec = \<lparr>session_recording = ''node'', other = ''audit''\<rparr>\<rparr>"
    by code_simp
  have r: "revision stored_node_config + 1 = 2" by code_simp
  from UpdateClusterConfig_merges_session_recording [OF h]
  obtain current cc' where
    "demo_check proxy_config = Inr cc'"
    "fst (GetClusterConfig demo_config_marshaler [] stored_node_config) = Inr current"
    "codec_roundtrip demo_config_marshaler \<longrightarrow>
       fst (GetClusterConfig demo_config_marshaler [] ?b')
         = Inr (current\<lparr>resource_id := revision stored_node_config + 1,
                  spec := (spec current)\<lparr>session_recording := session_recording (spec cc')\<rparr>\<rparr>)"
    by blast
  note o = this
  from o(1) c have cc': "cc' = proxy_config" by simp
  from o(2) g have cur: "current = \<lparr>resource_id = 1, expiry = 0,
            spec = \<lparr>session_recording = ''node'', other = ''audit''\<rparr>\<rparr>" by simp
  from o(3) demo_config_marshaler_roundtrip
  have "fst (GetClusterConfig demo_config_marshaler [] ?b')
         = Inr (current\<lparr>resource_id := revision stored_node_config + 1,
                  spec := (spec current)\<lparr>session_recording := session_recording (spec cc')\<rparr>\<rparr>)"
    by simp
  then have "fst (GetClusterConfig demo_config_marshaler [] ?b')
     = Inr \<lparr>resource_id = 2, expiry = 0,
            spec = \<lparr>session_recording = ''proxy'', other = ''audit''\<rparr>\<rparr>"
    by (simp add: cc' cur r proxy_config_def)
  with ok g show ?thesis by (simp add: prod_eq_iff)
qed

text \<open>
  Claim C3. \<open>UpdateClusterConfig\<close> has read the entry \<open>existing\<close>; before its
  compare-and-swap, other clients change the backend (\<open>env\<close>) so that the entry at the
  key, \<open>theirs\<close>, has another revision. Then the update returns the compare-failed
  error with the message of the source, the stored entries are exactly what the other
  clients left, so that the entry at the key is \<open>theirs\<close>, and after the read the
  update has sent the backend one compare-and-swap and nothing more: it does not retry.
\<close>

theorem UpdateClusterConfig_lost_race:
  assumes "check cc = Inr cc'"
    and "items b (backend_Key [clusterConfigPrefix, generalPrefix]) = Some existing"
    and "Unmarshal m (payload existing) [WithResourceID (mod_revision existing), WithExpires (expires_at existing)]
           = Inr current"
    and "Marshal m (SetSessionRecording (GetSessionRecording cc') current) = Inr updateValue"
    and "items (env (log_call (GetCall (backend_Key [clusterConfigPrefix, generalPrefix])) b))
           (backend_Key [clusterConfigPrefix, generalPrefix]) = Some theirs"
    and "mod_revision theirs \<noteq> mod_revision existing"
  shows "fst (UpdateClusterConfig_interleaved env check m cc b)
           = Inl (CompareFailed
                   ''cluster configuration has been updated by another client, try again'') \<and>
         items (snd (UpdateClusterConfig_interleaved env check m cc b))
           = items (env (log_call (GetCall (backend_Key [clusterConfigPrefix, generalPrefix])) b)) \<and>
         items (snd (UpdateClusterConfig_interleaved env check m cc b))
           (backend_Key [clusterConfigPrefix, generalPrefix]) = Some theirs \<and>
         calls (snd (UpdateClusterConfig_interleaved env check m cc b))
           = calls (env (log_call (GetCall (backend_Key [clusterConfigPrefix, generalPrefix])) b))
             @ [CompareAndSwapCall (item_of (backend_Key [clusterConfigPrefix, generalPrefix]) existing)
                  \<lparr>Key = backend_Key [clusterConfigPrefix, generalPrefix], Value = updateValue,
                   Expires = expiry current, ID = 0\<rparr>]"
proof -
  let ?k = "backend_Key [clusterConfigPrefix, generalPrefix]"
  show ?thesis
    using assms(5,6)
    by (simp add: UpdateClusterConfig_interleaved_reaches_swap [of check cc, OF assms(1-4)]
        backend_CompareAndSwap_def item_of_def)
qed

theorem UpdateClusterConfig_lost_race_witness:
  "fst (UpdateClusterConfig_interleaved another_client demo_check demo_config_marshaler proxy_config
          stored_node_config)
     = Inl (CompareFailed ''cluster configuration has been updated by another client, try again'') \<and>
   items (snd (UpdateClusterConfig_interleaved another_client demo_check demo_config_marshaler
                 proxy_config stored_node_config))
     (backend_Key [clusterConfigPrefix, generalPrefix])
     = Some \<lparr>payload = ''001110offtheirs'', expires_at = 0, mod_revision = 2\<rparr> \<and>
   calls (snd (UpdateClusterConfig_interleaved another_client demo_check demo_config_marshaler
                 proxy_config stored_node_config))
     = [PutCall \<lparr>Key = ''cluster_configuration/general'',
                 Value = ''1111111011111011110nodeaudit'', Expires = 0, ID = 7\<rparr>,
        GetCall ''cluster_configuration/general'',
        PutCall \<lparr>Key = ''cluster_configuration/general'',
                 Value = ''001110offtheirs'', Expires = 0, ID = 0\<rparr>,
        CompareAndSwapCall
          \<lparr>Key = ''cluster_configuration/general'',
            Value = ''1111111011111011110nodeaudit'', Expires = 0, ID = 1\<rparr>
          \<lparr>Key = ''cluster_configuration/general'',
            Value = ''100111110proxyaudit'', Expires = 0, ID = 0\<rparr>]"
proof -
  let ?k = "backend_Key [clusterConfigPrefix, generalPrefix]"
  have l: "calls (another_client (log_call (GetCall ?k) stored_node_config))
     = [PutCall \<lparr>Key = ''cluster_configuration/general'',
                 Value = ''1111111011111011110nodeaudit'', Expires = 0, ID = 7\<rparr>,
        GetCall ''cluster_configuration/general'',
        PutCall \<lparr>Key = ''cluster_configuration/general'',
                 Value = ''001110offtheirs'', Expires = 0, ID = 0\<rparr>]"
    by code_simp
  have c: "demo_check proxy_config = Inr proxy_config" by code_simp
  have e: "items stored_node_config ?k
             = Some \<lparr>payload = ''1111111011111011110nodeaudit'', expires_at = 0, mod_revision = 1\<rparr>"
    by code_simp
  have u: "Unmarshal demo_config_marshaler
             (payload \<lparr>payload = ''1111111011111011110nodeaudit'', expires_at = 0, mod_revision = 1\<rparr>)
             [WithResourceID (mod_revision \<lparr>payload = ''1111111011111011110nodeaudit'', expires_at = 0, mod_revision = 1\<rparr>),
              WithExpires (expires_at \<lparr>payload = ''1111111011111011110nodeaudit'', expires_at = 0, mod_revision = 1\<rparr>)]
             = Inr \<lparr>resource_id = 1, expiry = 0,
                    spec = \<lparr>session_recording = ''node'', other = ''audit''\<rparr>\<rparr>"
    by code_simp
  have v: "Marshal demo_config_marshaler
             (SetSessionRecording (GetSessionRecording proxy_config)
                \<lparr>resource_id = 1, expiry = 0,
                 spec = \<lparr>session_recording = ''node'', other = ''audit''\<rparr>\<rparr>)
             = Inr ''100111110proxyaudit''"
    by code_simp
  have t: "items (another_client (log_call (GetCall ?k) stored_node_config)) ?k
             = Some \<lparr>payload = ''001110offtheirs'', expires_at = 0, mod_revision = 2\<rparr>"
    by code_simp
  have n: "mod_revision \<lparr>payload = ''001110offtheirs'', expires_at = 0, mod_revision = 2\<rparr>
             \<noteq> mod_revision \<lparr>payload = ''1111111011111011110nodeaudit'', expires_at = 0, mod_revision = 1\<rparr>"
    by simp
  from UpdateClusterConfig_lost_race
    [where check = demo_check and cc = proxy_config and env = another_client
       and b = stored_node_config, OF c e u v t n] t l
  show ?thesis by (simp add: key_paths item_of_def)
qed

text \<open>
  Claim C4. When \<open>CheckAndSetDefaults\<close> rejects the value, \<open>UpdateClusterConfig\<close>
  returns that error and the backend is what it was: no entry, no revision and no logged
  call has changed, so the backend was neither read nor written. This holds whatever
  other clients would have done in the meantime.
\<close>

theorem UpdateClusterConfig_validation_failure_touches_nothing:
  assumes "check cc = Inl err"
  shows "UpdateClusterConfig check m cc b = (Inl err, b) \<and>
         UpdateClusterConfig_interleaved env check m cc b = (Inl err, b)"
  using assms by (simp add: UpdateClusterConfig_def UpdateClusterConfig_interleaved_def Wrap_def)

theorem UpdateClusterConfig_validation_failure_touches_nothing_witness:
  "demo_check bad_config = Inl (BadParameter ''session_recording must either be: node,proxy,off'') \<and>
   UpdateClusterConfig demo_check demo_config_marshaler bad_config
     (snd (SetClusterConfig demo_config_marshaler node_config empty_backend))
     = (Inl (BadParameter ''session_recording must either be: node,proxy,off''),
        snd (SetClusterConfig demo_config_marshaler node_config empty_backend))"
proof -
  have h: "demo_check bad_config = Inl (BadParameter ''session_recording must either be: node,proxy,off'')"
    by code_simp
  from UpdateClusterConfig_validation_failure_touches_nothing [of demo_check bad_config, OF h] h
  show ?thesis by simp
qed

text \<open>
  Claim C5 says that a write of a value followed by the read of its kind returns the value
  that was written, carrying the revision and the expiry of the entry just written. Each
  of the resources below declares the expiry 5. \<open>SetAuthPreference\<close> and
  \<open>SetClusterConfig\<close> store the entry with the zero time as its expiry, and the read that
  follows returns the value with the expiry 0 in place of 5. \<open>SetStaticTokens\<close> and
  \<open>UpsertClusterName\<close> store the entry with the expiry 5, and the read that follows
  returns the value as it was written, under revision 1.
\<close>

theorem Set_then_Get_reads_back_zero_expiry:
  "expiry demo_preference = 5 \<and>
   items (snd (SetAuthPreference demo_bytes_marshaler demo_preference empty_backend))
     (backend_Key [authPrefix, preferencePrefix, generalPrefix])
     = Some \<lparr>payload = ''11111110111110otp'', expires_at = 0, mod_revision = 1\<rparr> \<and>
   fst (GetAuthPreference demo_bytes_marshaler
          (snd (SetAuthPreference demo_bytes_marshaler demo_preference empty_backend)))
     = Inr \<lparr>resource_id = 1, expiry = 0, spec = ''otp''\<rparr> \<and>
   expiry node_config = 5 \<and>
   items (snd (SetClusterConfig demo_config_marshaler node_config empty_backend))
     (backend_Key [clusterConfigPrefix, generalPrefix])
     = Some \<lparr>payload = ''1111111011111011110nodeaudit'', expires_at = 0, mod_revision = 1\<rparr> \<and>
   fst (GetClusterConfig demo_config_marshaler []
          (snd (SetClusterConfig demo_config_marshaler node_config empty_backend)))
     = Inr \<lparr>resource_id = 1, expiry = 0,
            spec = \<lparr>session_recording = ''node'', other = ''audit''\<rparr>\<rparr> \<and>
   expiry demo_tokens = 5 \<and>
   fst (GetStaticTokens demo_bytes_marshaler
          (snd (SetStaticTokens demo_bytes_marshaler demo_tokens empty_backend)))
     = Inr \<lparr>resource_id = 1, expiry = 5, spec = ''token''\<rparr> \<and>
   fst (GetClusterName demo_bytes_marshaler []
          (snd (UpsertClusterName demo_bytes_marshaler demo_tokens empty_backend)))
     = Inr \<lparr>resource_id = 1, expiry = 5, spec = ''token''\<rparr>"
  by code_simp

text \<open>
  Claim C6 says that every unconditional write passes the declared expiry of the value and
  its resource identifier to the backend's \<open>Put\<close>. Each of the resources below declares
  the expiry 5 and the resource identifier 7. \<open>SetClusterConfig\<close> and
  \<open>SetAuthPreference\<close> pass the identifier and the zero time as \<open>Expires\<close>;
  \<open>UpsertClusterName\<close> and \<open>SetStaticTokens\<close> pass the identifier and the expiry 5.
\<close>

theorem SetAuthPreference_and_SetClusterConfig_put_zero_expiry:
  "expiry node_config = 5 \<and> expiry demo_preference = 5 \<and> expiry demo_tokens = 5 \<and>
   calls (snd (SetClusterConfig demo_config_marshaler node_config empty_backend))
     = [PutCall \<lparr>Key = ''cluster_configuration/general'',
                 Value = ''1111111011111011110nodeaudit'', Expires = 0, ID = 7\<rparr>] \<and>
   calls (snd (SetAuthPreference demo_bytes_marshaler demo_preference empty_backend))
     = [PutCall \<lparr>Key = ''authentication/preference/general'',
                 Value = ''11111110111110otp'', Expires = 0, ID = 7\<rparr>] \<and>
   calls (snd (UpsertClusterName demo_bytes_marshaler demo_tokens empty_backend))
     = [PutCall \<lparr>Key = ''cluster_configuration/name'',
                 Value = ''11111110111110token'', Expires = 5, ID = 7\<rparr>] \<and>
   calls (snd (SetStaticTokens demo_bytes_marshaler demo_tokens empty_backend))
     = [PutCall \<lparr>Key = ''cluster_configuration/static_tokens'',
                 Value = ''11111110111110token'', Expires = 5, ID = 7\<rparr>]"
  by code_simp



text \<open>
  Claim C8. \<open>GetClusterConfig\<close> returns the same result and the same backend state for
  every list of options as for the empty list. Whatever item the backend's \<open>Get\<close>
  returns, the unmarshaler is given the value of the item with exactly the two options
  built from the item, its identifier and its expiry.
\<close>

theorem GetClusterConfig_ignores_options:
  "GetClusterConfig m opts b = GetClusterConfig m [] b \<and>
   fst (GetClusterConfig m opts b) =
     (case fst (backend_Get b (backend_Key [clusterConfigPrefix, generalPrefix])) of
        Inl err \<Rightarrow>
          if IsNotFound err then Inl (NotFound ''cluster configuration not found'') else Inl err
      | Inr i \<Rightarrow> Unmarshal m (Value i) [WithResourceID (ID i), WithExpires (Expires i)])"
  by (simp add: GetClusterConfig_def getClusterConfig_def AddOptions_def Wrap_def
      split: prod.splits sum.splits)

section \<open>Properties of the signer shim\<close>

lemma fixedAlgorithmSigner_neq: "fixedAlgorithmSigner s a \<noteq> s"
proof
  assume "fixedAlgorithmSigner s a = s"
  then have "size (fixedAlgorithmSigner s a) = size s" by simp
  then show False by simp
qed

text \<open>
  Claim C9. \<open>AlgSigner s alg\<close> returns \<open>s\<close> itself whenever \<open>alg\<close> is empty, or the
  public-key type of \<open>s\<close> is neither \<open>ssh-rsa\<close> nor the RSA certificate type, or \<open>s\<close>
  does not implement \<open>ssh.AlgorithmSigner\<close>. In the one remaining case, and only there,
  the result is not \<open>s\<close>: it is the \<open>fixedAlgorithmSigner\<close> that wraps \<open>s\<close> with \<open>alg\<close>.
\<close>

theorem AlgSigner_identity_unless_rsa_algorithm_signer:
  "(alg = [] \<or> (PublicKey_Type s \<noteq> KeyAlgoRSA \<and> PublicKey_Type s \<noteq> CertAlgoRSAv01)
      \<or> assert_AlgorithmSigner s = None
     \<longrightarrow> AlgSigner s alg = s) \<and>
   (\<not> (alg = [] \<or> (PublicKey_Type s \<noteq> KeyAlgoRSA \<and> PublicKey_Type s \<noteq> CertAlgoRSAv01)
      \<or> assert_AlgorithmSigner s = None)
     \<longrightarrow> AlgSigner s alg \<noteq> s \<and>
         (\<exists>as. assert_AlgorithmSigner s = Some as \<and>
               AlgSigner s alg = AlgorithmSigner (fixedAlgorithmSigner as alg)))"
proof (cases s)
  case (PlainSigner t sg)
  then show ?thesis by (simp add: AlgSigner_def)
next
  case (AlgorithmSigner as)
  then show ?thesis by (simp add: AlgSigner_def fixedAlgorithmSigner_neq)
qed

theorem AlgSigner_identity_unless_rsa_algorithm_signer_witness:
  "PublicKey_Type demo_ed25519_signer \<noteq> KeyAlgoRSA \<and>
   PublicKey_Type demo_ed25519_signer \<noteq> CertAlgoRSAv01 \<and>
   AlgSigner demo_ed25519_signer ''rsa-sha2-512'' = demo_ed25519_signer \<and>
   AlgSigner (AlgorithmSigner demo_rsa_signer) [] = AlgorithmSigner demo_rsa_signer \<and>
   PublicKey_Type (AlgorithmSigner demo_rsa_signer) = KeyAlgoRSA \<and>
   assert_AlgorithmSigner (AlgorithmSigner demo_rsa_signer) = Some demo_rsa_signer \<and>
   AlgSigner (AlgorithmSigner demo_rsa_signer) ''rsa-sha2-512'' \<noteq> AlgorithmSigner demo_rsa_signer \<and>
   AlgSigner (AlgorithmSigner demo_rsa_signer) ''rsa-sha2-512''
     = AlgorithmSigner (fixedAlgorithmSigner demo_rsa_signer ''rsa-sha2-512'')"
  using AlgSigner_identity_unless_rsa_algorithm_signer [of "''rsa-sha2-512''" demo_ed25519_signer]
    AlgSigner_identity_unless_rsa_algorithm_signer [of "[]" "AlgorithmSigner demo_rsa_signer"]
    AlgSigner_identity_unless_rsa_algorithm_signer
      [of "''rsa-sha2-512''" "AlgorithmSigner demo_rsa_signer"]
  by (simp add: demo_ed25519_signer_def demo_rsa_signer_def KeyAlgoRSA_def CertAlgoRSAv01_def)

text \<open>
  Claim C10. Let \<open>AlgSigner s A\<close> have wrapped \<open>s\<close>, whose \<open>ssh.AlgorithmSigner\<close> is
  \<open>as\<close>. Then \<open>Sign\<close> on the result is \<open>SignWithAlgorithm\<close> of \<open>as\<close> with algorithm
  \<open>A\<close>, and \<open>SignWithAlgorithm\<close> on the wrapper calls \<open>as\<close> with \<open>A\<close> when the
  algorithm given is empty and with the algorithm given when it is not.
\<close>

theorem fixedAlgorithmSigner_signs_with_fixed_algorithm:
  assumes "AlgSigner s A \<noteq> s"
  shows "\<exists>as. assert_AlgorithmSigner s = Some as \<and>
           assert_AlgorithmSigner (AlgSigner s A) = Some (fixedAlgorithmSigner as A) \<and>
           (\<forall>rand data. Sign (AlgSigner s A) rand data = SignWithAlgorithm as rand data A) \<and>
           (\<forall>rand data. SignWithAlgorithm (fixedAlgorithmSigner as A) rand data []
                          = SignWithAlgorithm as rand data A) \<and>
           (\<forall>rand data alg. alg \<noteq> [] \<longrightarrow>
               SignWithAlgorithm (fixedAlgorithmSigner as A) rand data alg
                 = SignWithAlgorithm as rand data alg)"
proof (cases s)
  case (PlainSigner t sg)
  with assms show ?thesis by (simp add: AlgSigner_def split: if_splits)
next
  case (AlgorithmSigner as)
  with assms have "AlgSigner s A = AlgorithmSigner (fixedAlgorithmSigner as A)"
    by (simp add: AlgSigner_def split: if_splits)
  with AlgorithmSigner show ?thesis by simp
qed

theorem fixedAlgorithmSigner_signs_with_fixed_algorithm_witness:
  "AlgSigner (AlgorithmSigner demo_rsa_signer) ''rsa-sha2-512'' \<noteq> AlgorithmSigner demo_rsa_signer \<and>
   Sign (AlgSigner (AlgorithmSigner demo_rsa_signer) ''rsa-sha2-512'') () ''abc''
     = ''rsa-sha2-512:abc'' \<and>
   SignWithAlgorithm (fixedAlgorithmSigner demo_rsa_signer ''rsa-sha2-512'') () ''abc'' []
     = ''rsa-sha2-512:abc'' \<and>
   SignWithAlgorithm (fixedAlgorithmSigner demo_rsa_signer ''rsa-sha2-512'') () ''abc'' ''rsa-sha2-256''
     = ''rsa-sha2-256:abc''"
proof -
  have h: "AlgSigner (AlgorithmSigner demo_rsa_signer) ''rsa-sha2-512'' \<noteq> AlgorithmSigner demo_rsa_signer"
    by (simp add: AlgSigner_def demo_rsa_signer_def KeyAlgoRSA_def)
  from fixedAlgorithmSigner_signs_with_fixed_algorithm [OF h]
  have "(\<forall>rand data. Sign (AlgSigner (AlgorithmSigner demo_rsa_signer) ''rsa-sha2-512'') rand data
            = SignWithAlgorithm demo_rsa_signer rand data ''rsa-sha2-512'') \<and>
        (\<forall>rand data. SignWithAlgorithm (fixedAlgorithmSigner demo_rsa_signer ''rsa-sha2-512'') rand data []
            = SignWithAlgorithm demo_rsa_signer rand data ''rsa-sha2-512'') \<and>
        (\<forall>rand data alg. alg \<noteq> [] \<longrightarrow>
            SignWithAlgorithm (fixedAlgorithmSigner demo_rsa_signer ''rsa-sha2-512'') rand data alg
              = SignWithAlgorithm demo_rsa_signer rand data alg)"
    by simp
  then have
    "Sign (AlgSigner (AlgorithmSigner demo_rsa_signer) ''rsa-sha2-512'') () ''abc''
       = SignWithAlgorithm demo_rsa_signer () ''abc'' ''rsa-sha2-512''"
    "SignWithAlgorithm (fixedAlgorithmSigner demo_rsa_signer ''rsa-sha2-512'') () ''abc'' []
       = SignWithAlgorithm demo_rsa_signer () ''abc'' ''rsa-sha2-512''"
    "SignWithAlgorithm (fixedAlgorithmSigner demo_rsa_signer ''rsa-sha2-512'') () ''abc'' ''rsa-sha2-256''
       = SignWithAlgorithm demo_rsa_signer () ''abc'' ''rsa-sha2-256''"
    by simp_all
  moreover have "SignWithAlgorithm demo_rsa_signer () ''abc'' ''rsa-sha2-512'' = ''rsa-sha2-512:abc''"
    "SignWithAlgorithm demo_rsa_signer () ''abc'' ''rsa-sha2-256'' = ''rsa-sha2-256:abc''"
    by (simp_all add: demo_rsa_signer_def)
  ultimately show ?thesis using h by simp
qed

end
